theory Spec2Isabelle
  imports Complex_Main
begin

section \<open>Rendering of numbers and strings\<close>

text \<open>
  JavaScript's template literals render a whole number in decimal, with a leading minus sign
  for a negative one (below \<open>10\<^sup>2\<^sup>1\<close> in magnitude, which message counters, ages and
  month counts are). \<open>digits\<close> is the decimal expansion of a natural number and
  \<open>Number_toString\<close> the rendering of an integer.
\<close>

fun digits :: "nat \<Rightarrow> string" where
  "digits n = (if n < 10 then [''0123456789'' ! n]
               else digits (n div 10) @ [''0123456789'' ! (n mod 10)])"

declare digits.simps [simp del]

definition Number_toString :: "int \<Rightarrow> string" where
  "Number_toString i = (if i < 0 then CHR ''-'' # digits (nat (- i)) else digits (nat i))"

text \<open>\<open>Array.prototype.join\<close> on a list of strings.\<close>

fun join :: "string \<Rightarrow> string list \<Rightarrow> string" where
  "join sep [] = []"
| "join sep [x] = x"
| "join sep (x # y # ys) = x @ sep @ join sep (y # ys)"

text \<open>
  A string is truthy in JavaScript when it is not empty; an optional field that is absent
  (\<open>undefined\<close>) is falsy.
\<close>

definition truthy :: "string option \<Rightarrow> bool" where
  "truthy v = (case v of None \<Rightarrow> False | Some x \<Rightarrow> x \<noteq> [])"

text \<open>\<open>v || d\<close> for an optional string \<open>v\<close> and a default \<open>d\<close>.\<close>

definition or_default :: "string option \<Rightarrow> string \<Rightarrow> string" where
  "or_default v d = (case v of None \<Rightarrow> d | Some x \<Rightarrow> if x = [] then d else x)"

text \<open>
  \<open>String.prototype.trim\<close> removes white space and line terminators from both ends. A
  \<open>char\<close> is a byte and a string is read as UTF-8, so each of these characters is a byte
  sequence: U+0009 to U+000D, U+0020, U+00A0, U+1680, U+2000 to U+200A, U+2028, U+2029,
  U+202F, U+205F, U+3000 and U+FEFF.
\<close>

definition white_space :: "string list" where
  "white_space =
     [[CHR 0x09], [CHR 0x0A], [CHR 0x0B], [CHR 0x0C], [CHR 0x0D], [CHR 0x20],
      [CHR 0xC2, CHR 0xA0],
      [CHR 0xE1, CHR 0x9A, CHR 0x80],
      [CHR 0xE2, CHR 0x80, CHR 0x80], [CHR 0xE2, CHR 0x80, CHR 0x81],
      [CHR 0xE2, CHR 0x80, CHR 0x82], [CHR 0xE2, CHR 0x80, CHR 0x83],
      [CHR 0xE2, CHR 0x80, CHR 0x84], [CHR 0xE2, CHR 0x80, CHR 0x85],
      [CHR 0xE2, CHR 0x80, CHR 0x86], [CHR 0xE2, CHR 0x80, CHR 0x87],
      [CHR 0xE2, CHR 0x80, CHR 0x88], [CHR 0xE2, CHR 0x80, CHR 0x89],
      [CHR 0xE2, CHR 0x80, CHR 0x8A],
      [CHR 0xE2, CHR 0x80, CHR 0xA8], [CHR 0xE2, CHR 0x80, CHR 0xA9],
      [CHR 0xE2, CHR 0x80, CHR 0xAF],
      [CHR 0xE2, CHR 0x81, CHR 0x9F],
      [CHR 0xE3, CHR 0x80, CHR 0x80],
      [CHR 0xEF, CHR 0xBB, CHR 0xBF]]"

text \<open>
  \<open>leading ws s\<close> is the length of the sequence of \<open>ws\<close> that \<open>s\<close> starts with, or 0 when
  it starts with none; \<open>strip ws s\<close> removes such sequences from the front of \<open>s\<close> for as
  long as there is one. The end of the string is stripped on the reversed string.
\<close>

definition leading :: "string list \<Rightarrow> string \<Rightarrow> nat" where
  "leading ws s =
     (case find (\<lambda>w. take (length w) s = w) ws of None \<Rightarrow> 0 | Some w \<Rightarrow> length w)"

fun strip :: "string list \<Rightarrow> string \<Rightarrow> string" where
  "strip ws [] = []"
| "strip ws (c # cs) =
     (let n = leading ws (c # cs)
      in if n = 0 then c # cs else strip ws (drop (n - 1) cs))"

definition trim :: "string \<Rightarrow> string" where
  "trim s = rev (strip (map rev white_space) (rev (strip white_space s)))"

section \<open>Scenario descriptor\<close>

datatype ParentPersona = Anxious | Calm | Dismissive | Demanding | Confused | Frustrated

record ScenarioPatient =
  name :: string
  age :: string
  sex :: string
  allergies :: "string list"
  medications :: "string list"
  chronic_conditions :: "string list"

record ScenarioParent =
  style :: ParentPersona

record SyrinxScenario =
  description :: string
  patient :: ScenarioPatient
  parent :: ScenarioParent
  chief_complaint :: string

section \<open>Session client: \<open>useSyrinxSession\<close>\<close>

datatype Speaker = Doctor | Parent

record ChatMessage =
  id_m :: string
  speaker :: Speaker
  text_m :: string
  timestamp :: int

text \<open>
  An inbound record as \<open>JSON.parse\<close> returns it: the \<open>type\<close> tag and the optional
  \<open>text\<close> and \<open>error\<close> fields of \<open>SyrinxMessage\<close>.
\<close>

record SyrinxMessage =
  type_m :: string
  text_i :: "string option"
  error_i :: "string option"

text \<open>The two records the client serialises and hands to \<open>ws.send\<close>.\<close>

datatype Outbound =
    InitRecord string SyrinxScenario
  | MessageRecord string

text \<open>
  The browser's WebSocket object: its \<open>readyState\<close>, the frames handed to \<open>send\<close> while
  open, and the \<open>scenario\<close> that the handlers installed on it by \<open>connect\<close> close over.
\<close>

datatype ReadyState = CONNECTING | OPEN | CLOSING | CLOSED

record WebSocket =
  readyState :: ReadyState
  sent :: "Outbound list"
  scenario :: SyrinxScenario

datatype exn = InvalidStateError

text \<open>
  \<open>WebSocket.send\<close>: throws while the socket is still connecting, queues the frame
  while it is open, and drops it once the socket is closing or closed.
\<close>

definition WebSocket_send :: "Outbound \<Rightarrow> WebSocket \<Rightarrow> exn + WebSocket" where
  "WebSocket_send p w =
     (case readyState w of
        CONNECTING \<Rightarrow> Inl InvalidStateError
      | OPEN \<Rightarrow> Inr (w\<lparr>sent := sent w @ [p]\<rparr>)
      | CLOSING \<Rightarrow> Inr w
      | CLOSED \<Rightarrow> Inr w)"

text \<open>\<open>WebSocket.close\<close>: starts the closing handshake unless the socket is already closed.\<close>

definition WebSocket_close :: "WebSocket \<Rightarrow> WebSocket" where
  "WebSocket_close w = (if readyState w = CLOSED then w else w\<lparr>readyState := CLOSING\<rparr>)"

text \<open>
  The state of the hook: the five \<open>useState\<close> cells, the two refs, and the store of the
  WebSocket objects created so far. \<open>wsRef\<close> holds the index of the current socket in
  \<open>sockets\<close>, or \<open>None\<close> for \<open>null\<close>. A reference cannot dangle in the source, and
  \<open>connect\<close> only ever stores the index of the socket it has just added; the functions
  below treat an index outside the store as no socket, which keeps them total.
\<close>

record Session =
  messages :: "ChatMessage list"
  isConnected :: bool
  isConnecting :: bool
  isWaitingForResponse :: bool
  error :: "string option"
  wsRef :: "nat option"
  messageIdRef :: nat
  sockets :: "WebSocket list"

definition initial :: Session where
  "initial = \<lparr>messages = [], isConnected = False, isConnecting = False,
              isWaitingForResponse = False, error = None, wsRef = None,
              messageIdRef = 0, sockets = []\<rparr>"

text \<open>\<open>wsRef.current?.readyState === WebSocket.OPEN\<close>\<close>

definition ws_open :: "Session \<Rightarrow> bool" where
  "ws_open s =
     (case wsRef s of
        None \<Rightarrow> False
      | Some h \<Rightarrow> h < length (sockets s) \<and> readyState (sockets s ! h) = OPEN)"

definition generateId :: "Session \<Rightarrow> string \<times> Session" where
  "generateId s =
     (let s' = s\<lparr>messageIdRef := messageIdRef s + 1\<rparr>
      in (''msg-'' @ Number_toString (int (messageIdRef s')), s'))"

text \<open>\<open>setMessages(prev => [...prev, {id: generateId(), speaker, text, timestamp: new Date()}])\<close>\<close>

definition appendMessage :: "int \<Rightarrow> Speaker \<Rightarrow> string \<Rightarrow> Session \<Rightarrow> Session" where
  "appendMessage now who txt s =
     (let (i, s') = generateId s
      in s'\<lparr>messages := messages s' @
               [\<lparr>id_m = i, speaker = who, text_m = txt, timestamp = now\<rparr>]\<rparr>)"

text \<open>\<open>ws.send\<close> on the socket with handle \<open>h\<close>.\<close>

definition ws_send :: "nat \<Rightarrow> Outbound \<Rightarrow> Session \<Rightarrow> exn + Session" where
  "ws_send h p s =
     (if h < length (sockets s) then
        (case WebSocket_send p (sockets s ! h) of
           Inl e \<Rightarrow> Inl e
         | Inr w \<Rightarrow> Inr (s\<lparr>sockets := (sockets s)[h := w]\<rparr>))
      else Inr s)"

definition connect :: "SyrinxScenario \<Rightarrow> Session \<Rightarrow> Session" where
  "connect sc s =
     (if ws_open s then s
      else
        let s1 = s\<lparr>isConnecting := True, error := None, messages := []\<rparr>;
            ws = \<lparr>readyState = CONNECTING, sent = [], scenario = sc\<rparr>
        in s1\<lparr>sockets := sockets s1 @ [ws], wsRef := Some (length (sockets s1))\<rparr>)"

text \<open>The four handlers that \<open>connect\<close> installs on the socket with handle \<open>h\<close>.\<close>

definition ws_onopen :: "nat \<Rightarrow> Session \<Rightarrow> exn + Session" where
  "ws_onopen h s =
     (let s1 = s\<lparr>isConnecting := False, isConnected := True, isWaitingForResponse := True\<rparr>
      in if h < length (sockets s1)
         then ws_send h (InitRecord ''doctor'' (scenario (sockets s1 ! h))) s1
         else Inr s1)"

text \<open>
  \<open>data\<close> is \<open>None\<close> when \<open>JSON.parse\<close> throws: the handler catches the exception and
  only logs it.
\<close>

definition ws_onmessage :: "int \<Rightarrow> SyrinxMessage option \<Rightarrow> Session \<Rightarrow> Session" where
  "ws_onmessage now data s =
     (case data of
        None \<Rightarrow> s
      | Some d \<Rightarrow>
          if type_m d = ''message'' \<and> truthy (text_i d) then
            (appendMessage now Parent (the (text_i d)) s)\<lparr>isWaitingForResponse := False\<rparr>
          else if type_m d = ''error'' then
            s\<lparr>error := Some (or_default (error_i d) ''An error occurred''),
              isWaitingForResponse := False\<rparr>
          else if type_m d = ''end'' then
            s\<lparr>isConnected := False\<rparr>
          else s)"

definition ws_onerror :: "Session \<Rightarrow> Session" where
  "ws_onerror s =
     s\<lparr>error := Some ''Connection error. Is Syrinx running on port 8003?'',
       isConnecting := False, isConnected := False, isWaitingForResponse := False\<rparr>"

definition ws_onclose :: "Session \<Rightarrow> Session" where
  "ws_onclose s = s\<lparr>isConnected := False, isConnecting := False, isWaitingForResponse := False\<rparr>"

definition sendMessage :: "int \<Rightarrow> string \<Rightarrow> Session \<Rightarrow> exn + Session" where
  "sendMessage now txt s =
     (case wsRef s of
        None \<Rightarrow> Inr (s\<lparr>error := Some ''Not connected to Syrinx''\<rparr>)
      | Some h \<Rightarrow>
          if \<not> (h < length (sockets s) \<and> readyState (sockets s ! h) = OPEN) then
            Inr (s\<lparr>error := Some ''Not connected to Syrinx''\<rparr>)
          else
            let s1 = appendMessage now Doctor txt s;
                s2 = s1\<lparr>isWaitingForResponse := True\<rparr>
            in ws_send h (MessageRecord txt) s2)"

definition disconnect :: "Session \<Rightarrow> Session" where
  "disconnect s =
     (let s1 = (case wsRef s of
                  None \<Rightarrow> s
                | Some h \<Rightarrow>
                    s\<lparr>sockets := (if h < length (sockets s)
                                   then (sockets s)[h := WebSocket_close (sockets s ! h)]
                                   else sockets s),
                      wsRef := None\<rparr>)
      in s1\<lparr>isConnected := False, isWaitingForResponse := False\<rparr>)"

definition clearError :: "Session \<Rightarrow> Session" where
  "clearError s = s\<lparr>error := None\<rparr>"

text \<open>
  The transport completing its handshake on socket \<open>h\<close>: the browser sets the socket's
  \<open>readyState\<close> to \<open>OPEN\<close> and then fires \<open>onopen\<close>. Nothing happens on a socket that is
  no longer connecting.
\<close>

definition transport_open :: "nat \<Rightarrow> Session \<Rightarrow> exn + Session" where
  "transport_open h s =
     (if h < length (sockets s) \<and> readyState (sockets s ! h) = CONNECTING
      then ws_onopen h (s\<lparr>sockets := (sockets s)[h := (sockets s ! h)\<lparr>readyState := OPEN\<rparr>]\<rparr>)
      else Inr s)"

text \<open>The frames handed to the transport on the current socket.\<close>

definition outbox :: "Session \<Rightarrow> Outbound list" where
  "outbox s =
     (case wsRef s of
        None \<Rightarrow> []
      | Some h \<Rightarrow> if h < length (sockets s) then sent (sockets s ! h) else [])"

section \<open>Session UI controller: \<open>RolePlayModal\<close>\<close>

text \<open>
  The modal owns the input box and reads the session's flags; \<open>handleSubmit\<close> is the only
  caller of \<open>sendMessage\<close>.
\<close>

record Modal =
  session :: Session
  inputValue :: string

definition handleSubmit :: "int \<Rightarrow> Modal \<Rightarrow> exn + Modal" where
  "handleSubmit now u =
     (if trim (inputValue u) = [] \<or> isWaitingForResponse (session u) \<or> \<not> isConnected (session u)
      then Inr u
      else (case sendMessage now (trim (inputValue u)) (session u) of
              Inl e \<Rightarrow> Inl e
            | Inr s' \<Rightarrow> Inr (u\<lparr>session := s', inputValue := []\<rparr>)))"

section \<open>Scenario builder: \<open>buildScenario\<close>\<close>

text \<open>
  The patient-detail record, with the fields that \<open>buildScenario\<close> reads. An optional
  field (\<open>?:\<close>) is an \<open>option\<close>; \<open>age_years\<close> is the age in whole years.
\<close>

record Reaction =
  manifestation :: string
  severity :: "string option"

record Allergy =
  display_name :: string
  reactions :: "Reaction list option"

record Medication =
  display_name :: string
  status :: string
  dose_quantity :: "string option"
  dose_unit :: "string option"
  frequency :: "string option"

record Condition =
  display_name :: string
  clinical_status :: string

record Patient =
  given_names :: "string list"
  family_name :: string
  date_of_birth :: string
  sex_at_birth :: "string option"
  age_years :: int

record PatientDetail =
  patient :: Patient
  conditions :: "Condition list"
  medications :: "Medication list"
  allergies :: "Allergy list"

definition fullName :: "Patient \<Rightarrow> string" where
  "fullName p = join '' '' (given_names p) @ '' '' @ family_name p"

text \<open>
  \<open>Date_getTime\<close> stands for the platform's \<open>new Date(str).getTime()\<close>: the instant in
  milliseconds, or \<open>None\<close> for an invalid date, whose time value is \<open>NaN\<close>. \<open>now\<close> is
  \<open>new Date().getTime()\<close>. \<open>Math.floor\<close> of the quotient is the integer \<open>div\<close>, which
  rounds towards minus infinity; \<open>NaN\<close> is never equal to 1 and renders as \<open>NaN\<close>.
\<close>

definition ageString :: "(string \<Rightarrow> int option) \<Rightarrow> int \<Rightarrow> Patient \<Rightarrow> string" where
  "ageString Date_getTime now p =
     (if age_years p < 1 then
        (case Date_getTime (date_of_birth p) of
           None \<Rightarrow> ''NaN months''
         | Some dob \<Rightarrow>
             let months = (now - dob) div (1000 * 60 * 60 * 24 * 30)
             in Number_toString months @ '' month'' @ (if months \<noteq> 1 then ''s'' else ''''))
      else Number_toString (age_years p) @ '' year''
           @ (if age_years p \<noteq> 1 then ''s'' else ''''))"

text \<open>\<open>a.reactions?.[0]?.manifestation\<close>\<close>

definition first_manifestation :: "Allergy \<Rightarrow> string option" where
  "first_manifestation a =
     (case reactions a of
        None \<Rightarrow> None
      | Some rs \<Rightarrow> (case rs of [] \<Rightarrow> None | r # _ \<Rightarrow> Some (manifestation r)))"

text \<open>The two \<open>map\<close> callbacks, and the filtered and rendered rosters.\<close>

definition allergy_entry :: "Allergy \<Rightarrow> string" where
  "allergy_entry a =
     (let reaction = first_manifestation a
      in if truthy reaction
         then Allergy.display_name a @ '' ('' @ the reaction @ '')''
         else Allergy.display_name a)"

definition medication_entry :: "Medication \<Rightarrow> string" where
  "medication_entry m =
     (if truthy (dose_quantity m) \<and> truthy (frequency m)
      then Medication.display_name m @ '' '' @ the (dose_quantity m)
           @ or_default (dose_unit m) '''' @ '' '' @ the (frequency m)
      else Medication.display_name m)"

definition activeAllergies :: "Allergy list \<Rightarrow> string list" where
  "activeAllergies as = map allergy_entry (filter (\<lambda>a. Allergy.display_name a \<noteq> []) as)"

definition activeMedications :: "Medication list \<Rightarrow> string list" where
  "activeMedications ms = map medication_entry (filter (\<lambda>m. status m = ''active'') ms)"

definition activeConditions :: "Condition list \<Rightarrow> string list" where
  "activeConditions cs =
     map Condition.display_name (filter (\<lambda>c. clinical_status c = ''active'') cs)"

definition buildScenario ::
  "(string \<Rightarrow> int option) \<Rightarrow> int \<Rightarrow> PatientDetail \<Rightarrow> string \<Rightarrow> ParentPersona
     \<Rightarrow> SyrinxScenario" where
  "buildScenario Date_getTime now patientData chiefComplaint parentPersona =
     (let p = PatientDetail.patient patientData;
          age_s = ageString Date_getTime now p;
          aa = activeAllergies (PatientDetail.allergies patientData);
          am = activeMedications (PatientDetail.medications patientData);
          ac = activeConditions (conditions patientData)
      in \<lparr>description =
            age_s @ '' old '' @ or_default (sex_at_birth p) ''child'' @ '' named '' @ fullName p
            @ '' presenting with '' @ chiefComplaint,
          patient =
            \<lparr>name = fullName p,
             age = age_s,
             sex = or_default (sex_at_birth p) ''unknown'',
             allergies = (if length aa > 0 then aa else [''None known'']),
             medications = (if length am > 0 then am else [''None'']),
             chronic_conditions = (if length ac > 0 then ac else [''None''])\<rparr>,
          parent = \<lparr>style = parentPersona\<rparr>,
          chief_complaint = chiefComplaint\<rparr>)"

section \<open>Example data\<close>

text \<open>
  A date parser that knows one date of birth (1 January 2024, UTC), an infant and a
  one-year-old with their rosters, and the scenario built for the infant.
\<close>

definition example_getTime :: "string \<Rightarrow> int option" where
  "example_getTime str = (if str = ''2024-01-01'' then Some 1704067200000 else None)"

definition example_patient :: PatientDetail where
  "example_patient =
     \<lparr>patient = \<lparr>given_names = [''Ann''], family_name = ''Lee'',
                 date_of_birth = ''2024-01-01'', sex_at_birth = Some ''female'',
                 age_years = 0\<rparr>,
      conditions = [\<lparr>display_name = ''Asthma'', clinical_status = ''active''\<rparr>,
                    \<lparr>display_name = ''Otitis media'', clinical_status = ''resolved''\<rparr>],
      medications = [\<lparr>Medication.display_name = ''Amoxicillin'', status = ''completed'',
                      dose_quantity = Some ''5'', dose_unit = Some ''mL'',
                      frequency = Some ''twice daily''\<rparr>,
                     \<lparr>Medication.display_name = ''Albuterol'', status = ''active'',
                      dose_quantity = Some ''90'', dose_unit = Some ''mcg'',
                      frequency = Some ''every 4 hours''\<rparr>],
      allergies = [\<lparr>Allergy.display_name = ''Peanut'',
                    reactions = Some [\<lparr>manifestation = ''Hives'', severity = None\<rparr>]\<rparr>,
                   \<lparr>Allergy.display_name = '''', reactions = None\<rparr>]\<rparr>"

definition toddler_patient :: PatientDetail where
  "toddler_patient =
     \<lparr>patient = \<lparr>given_names = [''Ben''], family_name = ''Ortiz'',
                 date_of_birth = ''2024-01-01'', sex_at_birth = None, age_years = 1\<rparr>,
      conditions = [\<lparr>display_name = ''Otitis media'', clinical_status = ''resolved''\<rparr>],
      medications = [\<lparr>Medication.display_name = ''Amoxicillin'', status = ''completed'',
                      dose_quantity = None, dose_unit = None, frequency = None\<rparr>],
      allergies = [\<lparr>Allergy.display_name = '''', reactions = None\<rparr>]\<rparr>"

definition example_scenario :: SyrinxScenario where
  "example_scenario =
     \<lparr>description = ''2 months old female named Ann Lee presenting with fever'',
      patient = \<lparr>name = ''Ann Lee'', age = ''2 months'', sex = ''female'',
                 allergies = [''Peanut (Hives)''],
                 medications = [''Albuterol 90mcg every 4 hours''],
                 chronic_conditions = [''Asthma'']\<rparr>,
      parent = \<lparr>style = Calm\<rparr>,
      chief_complaint = ''fever''\<rparr>"

text \<open>
  Session states along one run: connected and waiting for the peer's first turn; open after
  the peer's greeting; and disconnected with a rejected send on record.
\<close>

definition waiting_session :: Session where
  "waiting_session =
     \<lparr>messages = [], isConnected = True, isConnecting = False,
      isWaitingForResponse = True, error = None, wsRef = Some 0, messageIdRef = 0,
      sockets = [\<lparr>readyState = OPEN, sent = [InitRecord ''doctor'' example_scenario],
                  scenario = example_scenario\<rparr>]\<rparr>"

definition open_session :: Session where
  "open_session =
     \<lparr>messages = [\<lparr>id_m = ''msg-1'', speaker = Parent, text_m = ''Hello doctor'',
                    timestamp = 2\<rparr>],
      isConnected = True, isConnecting = False,
      isWaitingForResponse = False, error = None, wsRef = Some 0, messageIdRef = 1,
      sockets = [\<lparr>readyState = OPEN, sent = [InitRecord ''doctor'' example_scenario],
                  scenario = example_scenario\<rparr>]\<rparr>"

definition closed_session :: Session where
  "closed_session =
     \<lparr>messages = [\<lparr>id_m = ''msg-1'', speaker = Parent, text_m = ''Hello doctor'',
                    timestamp = 2\<rparr>],
      isConnected = False, isConnecting = False,
      isWaitingForResponse = False, error = Some ''Not connected to Syrinx'', wsRef = None,
      messageIdRef = 1,
      sockets = [\<lparr>readyState = CLOSING, sent = [InitRecord ''doctor'' example_scenario],
                  scenario = example_scenario\<rparr>]\<rparr>"

definition sent_while_waiting :: Session where
  "sent_while_waiting =
     \<lparr>messages = [\<lparr>id_m = ''msg-1'', speaker = Doctor, text_m = ''Hi'', timestamp = 7\<rparr>],
      isConnected = True, isConnecting = False,
      isWaitingForResponse = True, error = None, wsRef = Some 0, messageIdRef = 1,
      sockets = [\<lparr>readyState = OPEN,
                  sent = [InitRecord ''doctor'' example_scenario, MessageRecord ''Hi''],
                  scenario = example_scenario\<rparr>]\<rparr>"


text \<open>Inbound records.\<close>

definition greeting_record :: SyrinxMessage where
  "greeting_record = \<lparr>type_m = ''message'', text_i = Some ''Hello doctor'', error_i = None\<rparr>"


definition empty_error_record :: SyrinxMessage where
  "empty_error_record = \<lparr>type_m = ''error'', text_i = None, error_i = Some ''''\<rparr>"

definition unavailable_record :: SyrinxMessage where
  "unavailable_record =
     \<lparr>type_m = ''error'', text_i = None, error_i = Some ''simulation unavailable''\<rparr>"

section \<open>Basic facts\<close>

lemma digits_small: "n < 10 \<Longrightarrow> digits n = [''0123456789'' ! n]"
  by (simp add: digits.simps)

lemma digits_nonempty: "digits n \<noteq> []"
  by (subst digits.simps) simp

lemma Number_toString_nonempty: "Number_toString i \<noteq> []"
  by (simp add: Number_toString_def digits_nonempty)

lemma Number_toString_one: "Number_toString 1 = ''1''"
  by (simp add: Number_toString_def digits_small)

lemma Number_toString_two: "Number_toString 2 = ''2''"
  by (simp add: Number_toString_def digits_small)

text \<open>The example states are states of a run of the client.\<close>

lemma example_scenario_built:
  "buildScenario example_getTime 1709337600000 example_patient ''fever'' Calm = example_scenario"
  by (simp add: buildScenario_def example_patient_def example_getTime_def example_scenario_def
      ageString_def activeAllergies_def activeMedications_def activeConditions_def
      allergy_entry_def medication_entry_def first_manifestation_def truthy_def or_default_def
      fullName_def Number_toString_two Let_def)

lemma waiting_session_reachable:
  "transport_open 0 (connect example_scenario initial) = Inr waiting_session"
  by (simp add: transport_open_def connect_def initial_def ws_open_def ws_onopen_def
      ws_send_def WebSocket_send_def waiting_session_def Let_def)

lemma open_session_reachable:
  "ws_onmessage 2 (Some greeting_record) waiting_session = open_session"
  by (simp add: ws_onmessage_def greeting_record_def truthy_def appendMessage_def
      generateId_def waiting_session_def open_session_def Number_toString_one Let_def)

lemma closed_session_reachable:
  "sendMessage 5 ''Hi'' (disconnect open_session) = Inr closed_session"
  by (simp add: sendMessage_def disconnect_def WebSocket_close_def open_session_def
      closed_session_def Let_def)

text \<open>What \<open>sendMessage\<close> does once its guard has passed.\<close>

lemma sendMessage_open:
  assumes "wsRef s = Some h" and "h < length (sockets s)"
    and "readyState (sockets s ! h) = OPEN"
  shows "sendMessage now msg s =
     Inr (s\<lparr>messageIdRef := messageIdRef s + 1,
            messages := messages s @
              [\<lparr>id_m = ''msg-'' @ Number_toString (int (messageIdRef s + 1)),
                speaker = Doctor, text_m = msg, timestamp = now\<rparr>],
            isWaitingForResponse := True,
            sockets := (sockets s)
              [h := (sockets s ! h)\<lparr>sent := sent (sockets s ! h) @ [MessageRecord msg]\<rparr>]\<rparr>)"
  using assms
  by (simp add: sendMessage_def appendMessage_def generateId_def ws_send_def
      WebSocket_send_def Let_def)

lemma sendMessage_open_outbox:
  assumes "ws_open s"
  shows "\<exists>s'. sendMessage now msg s = Inr s'
     \<and> messages s' = messages s @
          [\<lparr>id_m = ''msg-'' @ Number_toString (int (messageIdRef s + 1)), speaker = Doctor,
            text_m = msg, timestamp = now\<rparr>]
     \<and> outbox s' = outbox s @ [MessageRecord msg]
     \<and> isWaitingForResponse s'"
proof -
  from assms obtain h where h: "wsRef s = Some h" "h < length (sockets s)"
      "readyState (sockets s ! h) = OPEN"
    by (auto simp: ws_open_def split: option.splits)
  show ?thesis
    unfolding sendMessage_open [OF h]
    using h by (simp add: outbox_def)
qed

text \<open>
  Thirty days of 86 400 000 milliseconds: the floor of the elapsed days over 30 is the
  integer quotient that \<open>ageString\<close> computes.
\<close>

lemma floor_days_months:
  "\<lfloor>real_of_int k / 86400000 / 30\<rfloor> = k div (1000 * 60 * 60 * 24 * 30)"
proof -
  have "real_of_int k / 86400000 / 30 = real_of_int k / real_of_int 2592000000"
    by simp
  then show ?thesis
    by (simp only: floor_divide_of_int_eq) simp
qed

lemma months_not_zero_years: "xs \<noteq> [] \<Longrightarrow> xs @ '' months'' \<noteq> ''0 years''"
proof
  assume "xs \<noteq> []" and "xs @ '' months'' = ''0 years''"
  then have "length (xs @ '' months'') = length ''0 years''" by simp
  with \<open>xs \<noteq> []\<close> show False by (cases xs) simp_all
qed

section \<open>Sending a turn\<close>

text \<open>
  C1, as stated for \<open>sendMessage\<close>, fails: the function reads the transport's state and
  never the waiting flag. In \<open>waiting_session\<close> the flag is set and the transport is open;
  \<open>sendMessage\<close> appends the entry \<open>msg-1\<close> to the transcript and hands the turn record
  to the transport.
\<close>

theorem sendMessage_while_waiting_counterexample:
  "isWaitingForResponse waiting_session
   \<and> sendMessage 7 ''Hi'' waiting_session = Inr sent_while_waiting
   \<and> messages sent_while_waiting \<noteq> messages waiting_session
   \<and> outbox sent_while_waiting \<noteq> outbox waiting_session"
  by (simp add: sendMessage_def appendMessage_def generateId_def ws_send_def WebSocket_send_def
      waiting_session_def sent_while_waiting_def outbox_def Number_toString_one Let_def)

text \<open>
  C1, amended. The guard on the waiting flag is the modal's: while the session waits for a
  reply, \<open>handleSubmit\<close> returns the modal as it is, so nothing is appended and nothing is
  transmitted. \<open>sendMessage\<close> itself is guarded by the transport only: whenever the current
  socket is open it appends the doctor's entry, hands one turn record to the transport and
  sets the waiting flag, whatever the flag was before.
\<close>

theorem handleSubmit_while_waiting:
  "(isWaitingForResponse (session u) \<longrightarrow> handleSubmit now u = Inr u)
   \<and> (ws_open s \<longrightarrow>
        (\<exists>s'. sendMessage now msg s = Inr s'
           \<and> messages s' = messages s @
                [\<lparr>id_m = ''msg-'' @ Number_toString (int (messageIdRef s + 1)),
                  speaker = Doctor, text_m = msg, timestamp = now\<rparr>]
           \<and> outbox s' = outbox s @ [MessageRecord msg]
           \<and> isWaitingForResponse s'))"
  using sendMessage_open_outbox [of s now msg] by (simp add: handleSubmit_def)

theorem handleSubmit_while_waiting_witness:
  "isWaitingForResponse (session \<lparr>session = waiting_session, inputValue = ''Hi''\<rparr>)
   \<and> handleSubmit 7 \<lparr>session = waiting_session, inputValue = ''Hi''\<rparr>
       = Inr \<lparr>session = waiting_session, inputValue = ''Hi''\<rparr>
   \<and> ws_open open_session
   \<and> (\<exists>s'. sendMessage 7 ''Hi'' open_session = Inr s'
         \<and> messages s' = messages open_session @
              [\<lparr>id_m = ''msg-2'', speaker = Doctor, text_m = ''Hi'', timestamp = 7\<rparr>]
         \<and> outbox s' = outbox open_session @ [MessageRecord ''Hi'']
         \<and> isWaitingForResponse s')"
proof -
  have w: "isWaitingForResponse (session \<lparr>session = waiting_session, inputValue = ''Hi''\<rparr>)"
    by (simp add: waiting_session_def)
  have o: "ws_open open_session"
    by (simp add: ws_open_def open_session_def)
  have n: "''msg-'' @ Number_toString (int (messageIdRef open_session + 1)) = ''msg-2''"
    by (simp add: open_session_def Number_toString_two)
  show ?thesis
    using handleSubmit_while_waiting
      [of "\<lparr>session = waiting_session, inputValue = ''Hi''\<rparr>" 7 open_session "''Hi''"] w o n
    by simp
qed

section \<open>End of session\<close>




section \<open>Errors\<close>

text \<open>
  C3, as stated, fails at the empty error text: the handler stores
  \<open>data.error || 'An error occurred'\<close>, and the empty string is falsy.
\<close>

theorem error_record_counterexample:
  "isConnected waiting_session
   \<and> type_m empty_error_record = ''error''
   \<and> error_i empty_error_record = Some ''''
   \<and> error (ws_onmessage 9 (Some empty_error_record) waiting_session)
       = Some ''An error occurred''
   \<and> error (ws_onmessage 9 (Some empty_error_record) waiting_session) \<noteq> Some ''''"
  by (simp add: ws_onmessage_def empty_error_record_def waiting_session_def or_default_def)

text \<open>
  C3, amended. An inbound \<open>error\<close> record replaces the current error by the record's error
  text when that text is present and not empty, and by \<open>An error occurred\<close> otherwise; it
  clears the waiting flag and leaves the transcript and the connected flag as they were.
\<close>

theorem error_record_surfaces:
  assumes "type_m d = ''error''"
  shows "error (ws_onmessage now (Some d) s) =
           Some (case error_i d of
                   None \<Rightarrow> ''An error occurred''
                 | Some e \<Rightarrow> if e = [] then ''An error occurred'' else e)
     \<and> \<not> isWaitingForResponse (ws_onmessage now (Some d) s)
     \<and> messages (ws_onmessage now (Some d) s) = messages s
     \<and> isConnected (ws_onmessage now (Some d) s) = isConnected s"
  using assms by (simp add: ws_onmessage_def or_default_def split: option.splits)

theorem error_record_surfaces_witness:
  "type_m unavailable_record = ''error''
   \<and> isConnected waiting_session \<and> isWaitingForResponse waiting_session
   \<and> error (ws_onmessage 9 (Some unavailable_record) waiting_session)
       = Some ''simulation unavailable''
   \<and> \<not> isWaitingForResponse (ws_onmessage 9 (Some unavailable_record) waiting_session)
   \<and> messages (ws_onmessage 9 (Some unavailable_record) waiting_session)
       = messages waiting_session
   \<and> isConnected (ws_onmessage 9 (Some unavailable_record) waiting_session)"
proof -
  have t: "type_m unavailable_record = ''error''"
    by (simp add: unavailable_record_def)
  have e: "error_i unavailable_record = Some ''simulation unavailable''"
    by (simp add: unavailable_record_def)
  have c: "isConnected waiting_session \<and> isWaitingForResponse waiting_session"
    by (simp add: waiting_session_def)
  show ?thesis
    using error_record_surfaces [OF t, of 9 waiting_session] t e c by simp
qed

text \<open>
  C4, as stated, fails on the connection flags: \<open>onerror\<close> clears both. A connected
  session is no longer connected after the fault, and a connecting one no longer connecting.
\<close>

theorem transport_fault_counterexample:
  "isConnected waiting_session \<and> \<not> isConnected (ws_onerror waiting_session)
   \<and> isConnecting (connect example_scenario initial)
   \<and> \<not> isConnecting (ws_onerror (connect example_scenario initial))"
  by (simp add: ws_onerror_def waiting_session_def connect_def ws_open_def initial_def Let_def)

text \<open>
  C4, amended. A transport fault replaces the current error by the fixed connection-error
  text and clears the waiting, connected and connecting flags; the transcript, the
  identifier counter, the transport handle and the sockets are left as they were.
\<close>

theorem transport_fault_surfaces:
  "error (ws_onerror s) = Some ''Connection error. Is Syrinx running on port 8003?''
   \<and> \<not> isWaitingForResponse (ws_onerror s)
   \<and> \<not> isConnected (ws_onerror s)
   \<and> \<not> isConnecting (ws_onerror s)
   \<and> messages (ws_onerror s) = messages s
   \<and> messageIdRef (ws_onerror s) = messageIdRef s
   \<and> wsRef (ws_onerror s) = wsRef s
   \<and> sockets (ws_onerror s) = sockets s"
  by (simp add: ws_onerror_def)

theorem transport_fault_surfaces_witness:
  "error closed_session = Some ''Not connected to Syrinx''
   \<and> error (ws_onerror closed_session)
       = Some ''Connection error. Is Syrinx running on port 8003?''
   \<and> messages (ws_onerror closed_session) = messages closed_session"
  using transport_fault_surfaces [of closed_session] by (simp add: closed_session_def)

section \<open>Disconnect and connect\<close>

text \<open>
  C5. \<open>disconnect\<close> is idempotent: a second call in succession changes nothing. After it
  the session is not connected, not waiting, and holds no transport handle, and the
  transport is released: the socket that was current has been closed (it is closing, or
  closed if it was so already, with the frames sent on it as they were), no other socket is
  touched, and no socket is current and open. The transcript and the error are kept. It is
  safe on a session that never connected (the initial state is left as it is) and on one
  that is already disconnected (without a current socket the sockets are left as they are).
\<close>

theorem disconnect_idempotent:
  "disconnect (disconnect s) = disconnect s
   \<and> \<not> isConnected (disconnect s)
   \<and> \<not> isWaitingForResponse (disconnect s)
   \<and> wsRef (disconnect s) = None
   \<and> disconnect initial = initial
   \<and> (wsRef s = Some h \<and> h < length (sockets s) \<longrightarrow>
        sockets (disconnect s) = (sockets s)[h := WebSocket_close (sockets s ! h)]
        \<and> readyState (sockets (disconnect s) ! h)
            = (if readyState (sockets s ! h) = CLOSED then CLOSED else CLOSING)
        \<and> readyState (sockets (disconnect s) ! h) \<noteq> OPEN
        \<and> readyState (sockets (disconnect s) ! h) \<noteq> CONNECTING
        \<and> sent (sockets (disconnect s) ! h) = sent (sockets s ! h))
   \<and> (wsRef s = None \<longrightarrow> sockets (disconnect s) = sockets s)
   \<and> \<not> ws_open (disconnect s)
   \<and> messages (disconnect s) = messages s
   \<and> error (disconnect s) = error s"
  by (simp add: disconnect_def initial_def ws_open_def WebSocket_close_def Let_def
      split: option.splits)

theorem disconnect_idempotent_witness:
  "disconnect (disconnect waiting_session) = disconnect waiting_session
   \<and> isConnected waiting_session \<and> \<not> isConnected (disconnect waiting_session)
   \<and> isWaitingForResponse waiting_session \<and> \<not> isWaitingForResponse (disconnect waiting_session)
   \<and> wsRef waiting_session = Some 0 \<and> 0 < length (sockets waiting_session)
   \<and> readyState (sockets waiting_session ! 0) = OPEN
   \<and> wsRef (disconnect waiting_session) = None
   \<and> readyState (sockets (disconnect waiting_session) ! 0) = CLOSING
   \<and> wsRef closed_session = None
   \<and> sockets (disconnect closed_session) = sockets closed_session"
proof -
  have w: "wsRef waiting_session = Some 0 \<and> 0 < length (sockets waiting_session)"
    by (simp add: waiting_session_def)
  have o: "readyState (sockets waiting_session ! 0) = OPEN"
    by (simp add: waiting_session_def)
  have f: "isConnected waiting_session \<and> isWaitingForResponse waiting_session"
    by (simp add: waiting_session_def)
  have c: "wsRef closed_session = None"
    by (simp add: closed_session_def)
  note d = disconnect_idempotent [of waiting_session 0]
  from d w have 1: "readyState (sockets (disconnect waiting_session) ! 0)
      = (if readyState (sockets waiting_session ! 0) = CLOSED then CLOSED else CLOSING)"
    by blast
  have 2: "readyState (sockets (disconnect waiting_session) ! 0) = CLOSING"
    unfolding 1 o by simp
  from disconnect_idempotent [of closed_session 0] c
  have 3: "sockets (disconnect closed_session) = sockets closed_session"
    by blast
  from d w o f c 2 3 show ?thesis
    by blast
qed

text \<open>
  C6. \<open>connect\<close> on a session whose current socket is open returns the session unchanged.
  Otherwise it sets the connecting flag, clears the error and the transcript, and makes a
  new socket in the connecting state, with nothing sent on it, the current one; the other
  fields are untouched.
\<close>

theorem connect_guard:
  "(ws_open s \<longrightarrow> connect sc s = s)
   \<and> (\<not> ws_open s \<longrightarrow>
        connect sc s =
          s\<lparr>isConnecting := True, error := None, messages := [],
            sockets := sockets s @ [\<lparr>readyState = CONNECTING, sent = [], scenario = sc\<rparr>],
            wsRef := Some (length (sockets s))\<rparr>
        \<and> messages (connect sc s) = []
        \<and> error (connect sc s) = None
        \<and> isConnecting (connect sc s)
        \<and> \<not> ws_open (connect sc s)
        \<and> outbox (connect sc s) = [])"
  by (simp add: connect_def ws_open_def outbox_def Let_def)

theorem connect_guard_witness:
  "ws_open open_session \<and> connect example_scenario open_session = open_session
   \<and> \<not> ws_open closed_session
   \<and> messages closed_session \<noteq> []
   \<and> error closed_session \<noteq> None
   \<and> messages (connect example_scenario closed_session) = []
   \<and> error (connect example_scenario closed_session) = None
   \<and> isConnecting (connect example_scenario closed_session)
   \<and> wsRef (connect example_scenario closed_session) = Some 1"
proof -
  have a: "ws_open open_session"
    by (simp add: ws_open_def open_session_def)
  have b: "\<not> ws_open closed_session"
    by (simp add: ws_open_def closed_session_def)
  have c: "messages closed_session \<noteq> []" "error closed_session \<noteq> None"
    "length (sockets closed_session) = 1"
    by (simp_all add: closed_session_def)
  from connect_guard [of open_session example_scenario] a
  have 1: "connect example_scenario open_session = open_session"
    by blast
  from connect_guard [of closed_session example_scenario] b
  have 2: "connect example_scenario closed_session =
      closed_session\<lparr>isConnecting := True, error := None, messages := [],
         sockets := sockets closed_session
           @ [\<lparr>readyState = CONNECTING, sent = [], scenario = example_scenario\<rparr>],
         wsRef := Some (length (sockets closed_session))\<rparr>"
    by blast
  have 3: "wsRef (connect example_scenario closed_session) = Some 1"
    unfolding 2 using c(3) by simp
  have 4: "messages (connect example_scenario closed_session) = []"
    "error (connect example_scenario closed_session) = None"
    "isConnecting (connect example_scenario closed_session)"
    unfolding 2 by simp_all
  show ?thesis
    using a b c(1,2) 1 3 4 by blast
qed

section \<open>Scenario builder\<close>

text \<open>
  C7. The age of the scenario's patient. Under one year of age it is never \<open>0 years\<close>,
  and for a date of birth that denotes an instant it is the floor of the elapsed days over
  30 (the elapsed days being the elapsed milliseconds over 86 400 000), followed by
  \<open>month\<close> when that count is 1 and by \<open>months\<close> otherwise. From one year on it is the
  count of years followed by \<open>year\<close> when the count is 1 and by \<open>years\<close> otherwise.
\<close>

theorem ageString_rendering:
  "(age_years (PatientDetail.patient pd) < 1 \<longrightarrow>
      age (SyrinxScenario.patient (buildScenario Date_getTime now pd cc pp)) \<noteq> ''0 years'')
   \<and> (age_years (PatientDetail.patient pd) < 1
        \<and> Date_getTime (date_of_birth (PatientDetail.patient pd)) = Some dob \<longrightarrow>
      age (SyrinxScenario.patient (buildScenario Date_getTime now pd cc pp)) =
        (let m = \<lfloor>real_of_int (now - dob) / 86400000 / 30\<rfloor>
         in Number_toString m @ (if m = 1 then '' month'' else '' months'')))
   \<and> (1 \<le> age_years (PatientDetail.patient pd) \<longrightarrow>
      age (SyrinxScenario.patient (buildScenario Date_getTime now pd cc pp)) =
        (let y = age_years (PatientDetail.patient pd)
         in Number_toString y @ (if y = 1 then '' year'' else '' years'')))"
proof -
  let ?p = "PatientDetail.patient pd"
  let ?a = "age (SyrinxScenario.patient (buildScenario Date_getTime now pd cc pp))"
  have m: "\<lfloor>real_of_int (now - dob) / 86400000 / 30\<rfloor>
      = (now - dob) div (1000 * 60 * 60 * 24 * 30)"
    by (rule floor_days_months)
  have a: "?a = ageString Date_getTime now ?p"
    by (simp add: buildScenario_def Let_def)
  have 1: "?a \<noteq> ''0 years''" if "age_years ?p < 1"
    unfolding a using that
    by (simp add: ageString_def Let_def Number_toString_one months_not_zero_years
        Number_toString_nonempty split: option.splits)
  have 2: "?a = (let m = \<lfloor>real_of_int (now - dob) / 86400000 / 30\<rfloor>
                in Number_toString m @ (if m = 1 then '' month'' else '' months''))"
    if "age_years ?p < 1" and "Date_getTime (date_of_birth ?p) = Some dob"
    unfolding a m using that by (simp add: ageString_def Let_def)
  have 3: "?a = (let y = age_years ?p
                in Number_toString y @ (if y = 1 then '' year'' else '' years''))"
    if "1 \<le> age_years ?p"
    unfolding a using that by (simp add: ageString_def Let_def)
  from 1 2 3 show ?thesis by blast
qed

theorem ageString_rendering_witness:
  "age_years (PatientDetail.patient example_patient) < 1
   \<and> example_getTime (date_of_birth (PatientDetail.patient example_patient))
       = Some 1704067200000
   \<and> age (SyrinxScenario.patient
         (buildScenario example_getTime 1709337600000 example_patient ''fever'' Calm))
       = ''2 months''
   \<and> age (SyrinxScenario.patient
         (buildScenario example_getTime 1709337600000 example_patient ''fever'' Calm))
       \<noteq> ''0 years''
   \<and> 1 \<le> age_years (PatientDetail.patient toddler_patient)
   \<and> age (SyrinxScenario.patient
         (buildScenario example_getTime 1740000000000 toddler_patient ''cough'' Anxious))
       = ''1 year''"
proof -
  have d: "example_getTime (date_of_birth (PatientDetail.patient example_patient))
      = Some 1704067200000"
    by (simp add: example_getTime_def example_patient_def)
  have y: "age_years (PatientDetail.patient example_patient) < 1"
    by (simp add: example_patient_def)
  have m: "\<lfloor>real_of_int (1709337600000 - 1704067200000) / 86400000 / 30\<rfloor> = 2"
    by simp
  have y': "age_years (PatientDetail.patient toddler_patient) = 1"
    by (simp add: toddler_patient_def)
  note r = ageString_rendering [where Date_getTime = example_getTime and pd = example_patient
      and dob = 1704067200000 and now = 1709337600000 and cc = "''fever''" and pp = Calm]
  note r' = ageString_rendering [where Date_getTime = example_getTime and pd = toddler_patient
      and dob = 0 and now = 1740000000000 and cc = "''cough''" and pp = Anxious]
  have 1: "age (SyrinxScenario.patient
         (buildScenario example_getTime 1709337600000 example_patient ''fever'' Calm))
       = ''2 months''"
    using r d y unfolding m Let_def by (simp add: Number_toString_two)
  have 2: "age (SyrinxScenario.patient
         (buildScenario example_getTime 1709337600000 example_patient ''fever'' Calm))
       \<noteq> ''0 years''"
    using r y by blast
  have 3: "age (SyrinxScenario.patient
         (buildScenario example_getTime 1740000000000 toddler_patient ''cough'' Anxious))
       = ''1 year''"
    using r' unfolding y' Let_def by (simp add: Number_toString_one)
  from d y y' 1 2 3 show ?thesis by simp
qed

text \<open>
  C8. The rosters of the built scenario hold the active entries and no others, in the
  order of the record: when at least one allergy has a non-empty display name, the
  allergies are the entries of exactly those; when at least one medication has status
  \<open>active\<close>, the medications are the entries of exactly those; when at least one
  condition has clinical status \<open>active\<close>, the chronic conditions are the display names
  of exactly those. An allergy's entry is its display name, followed by the manifestation
  of its first recorded reaction in parentheses when there is a first reaction and its
  manifestation is not empty.
\<close>

theorem buildScenario_active_entries:
  "(let sp = SyrinxScenario.patient (buildScenario Date_getTime now pd cc pp);
        als = filter (\<lambda>a. Allergy.display_name a \<noteq> []) (PatientDetail.allergies pd);
        meds = filter (\<lambda>m. status m = ''active'') (PatientDetail.medications pd);
        conds = filter (\<lambda>c. clinical_status c = ''active'') (conditions pd)
    in (als \<noteq> [] \<longrightarrow> ScenarioPatient.allergies sp = map allergy_entry als)
       \<and> (meds \<noteq> [] \<longrightarrow> ScenarioPatient.medications sp = map medication_entry meds)
       \<and> (conds \<noteq> [] \<longrightarrow> chronic_conditions sp = map Condition.display_name conds))
   \<and> allergy_entry a =
       (case reactions a of
          Some (r # rs) \<Rightarrow>
            if manifestation r = [] then Allergy.display_name a
            else Allergy.display_name a @ '' ('' @ manifestation r @ '')''
        | _ \<Rightarrow> Allergy.display_name a)"
  by (simp add: buildScenario_def activeAllergies_def activeMedications_def
      activeConditions_def allergy_entry_def first_manifestation_def truthy_def Let_def
      split: option.splits list.splits)

theorem buildScenario_active_entries_witness:
  "filter (\<lambda>a. Allergy.display_name a \<noteq> []) (PatientDetail.allergies example_patient) \<noteq> []
   \<and> filter (\<lambda>m. status m = ''active'') (PatientDetail.medications example_patient) \<noteq> []
   \<and> filter (\<lambda>c. clinical_status c = ''active'') (conditions example_patient) \<noteq> []
   \<and> ScenarioPatient.allergies (SyrinxScenario.patient
        (buildScenario example_getTime 1709337600000 example_patient ''fever'' Calm))
       = [''Peanut (Hives)'']
   \<and> ScenarioPatient.medications (SyrinxScenario.patient
        (buildScenario example_getTime 1709337600000 example_patient ''fever'' Calm))
       = [''Albuterol 90mcg every 4 hours'']
   \<and> chronic_conditions (SyrinxScenario.patient
        (buildScenario example_getTime 1709337600000 example_patient ''fever'' Calm))
       = [''Asthma'']"
proof -
  have f: "filter (\<lambda>a. Allergy.display_name a \<noteq> []) (PatientDetail.allergies example_patient)
        = [\<lparr>Allergy.display_name = ''Peanut'',
            reactions = Some [\<lparr>manifestation = ''Hives'', severity = None\<rparr>]\<rparr>]"
    "filter (\<lambda>m. status m = ''active'') (PatientDetail.medications example_patient)
        = [\<lparr>Medication.display_name = ''Albuterol'', status = ''active'',
            dose_quantity = Some ''90'', dose_unit = Some ''mcg'',
            frequency = Some ''every 4 hours''\<rparr>]"
    "filter (\<lambda>c. clinical_status c = ''active'') (conditions example_patient)
        = [\<lparr>display_name = ''Asthma'', clinical_status = ''active''\<rparr>]"
    by (simp_all add: example_patient_def)
  have e: "allergy_entry \<lparr>Allergy.display_name = ''Peanut'',
            reactions = Some [\<lparr>manifestation = ''Hives'', severity = None\<rparr>]\<rparr>
          = ''Peanut (Hives)''"
    "medication_entry \<lparr>Medication.display_name = ''Albuterol'', status = ''active'',
            dose_quantity = Some ''90'', dose_unit = Some ''mcg'',
            frequency = Some ''every 4 hours''\<rparr> = ''Albuterol 90mcg every 4 hours''"
    by (simp_all add: allergy_entry_def medication_entry_def first_manifestation_def
        truthy_def or_default_def)
  show ?thesis
    using buildScenario_active_entries [where Date_getTime = example_getTime
        and now = 1709337600000 and pd = example_patient and cc = "''fever''" and pp = Calm]
    unfolding Let_def f by (simp add: e)
qed

text \<open>
  C9. The three rosters of the built scenario are never empty: when no allergy has a
  non-empty display name the allergies are \<open>[None known]\<close>, when no medication is active
  the medications are \<open>[None]\<close>, and when no condition is active the chronic conditions
  are \<open>[None]\<close>.
\<close>

theorem buildScenario_rosters_nonempty:
  "(let sp = SyrinxScenario.patient (buildScenario Date_getTime now pd cc pp);
        als = filter (\<lambda>a. Allergy.display_name a \<noteq> []) (PatientDetail.allergies pd);
        meds = filter (\<lambda>m. status m = ''active'') (PatientDetail.medications pd);
        conds = filter (\<lambda>c. clinical_status c = ''active'') (conditions pd)
    in ScenarioPatient.allergies sp \<noteq> []
       \<and> ScenarioPatient.medications sp \<noteq> []
       \<and> chronic_conditions sp \<noteq> []
       \<and> (als = [] \<longrightarrow> ScenarioPatient.allergies sp = [''None known''])
       \<and> (meds = [] \<longrightarrow> ScenarioPatient.medications sp = [''None''])
       \<and> (conds = [] \<longrightarrow> chronic_conditions sp = [''None'']))"
  by (simp add: buildScenario_def activeAllergies_def activeMedications_def
      activeConditions_def Let_def)

theorem buildScenario_rosters_nonempty_witness:
  "filter (\<lambda>a. Allergy.display_name a \<noteq> []) (PatientDetail.allergies toddler_patient) = []
   \<and> filter (\<lambda>m. status m = ''active'') (PatientDetail.medications toddler_patient) = []
   \<and> filter (\<lambda>c. clinical_status c = ''active'') (conditions toddler_patient) = []
   \<and> ScenarioPatient.allergies (SyrinxScenario.patient
        (buildScenario example_getTime 1740000000000 toddler_patient ''cough'' Anxious))
       = [''None known'']
   \<and> ScenarioPatient.medications (SyrinxScenario.patient
        (buildScenario example_getTime 1740000000000 toddler_patient ''cough'' Anxious))
       = [''None'']
   \<and> chronic_conditions (SyrinxScenario.patient
        (buildScenario example_getTime 1740000000000 toddler_patient ''cough'' Anxious))
       = [''None'']"
proof -
  have f: "filter (\<lambda>a. Allergy.display_name a \<noteq> []) (PatientDetail.allergies toddler_patient)
        = []"
    "filter (\<lambda>m. status m = ''active'') (PatientDetail.medications toddler_patient) = []"
    "filter (\<lambda>c. clinical_status c = ''active'') (conditions toddler_patient) = []"
    by (simp_all add: toddler_patient_def)
  show ?thesis
    using buildScenario_rosters_nonempty [where Date_getTime = example_getTime
        and now = 1740000000000 and pd = toddler_patient and cc = "''cough''" and pp = Anxious]
    unfolding Let_def f by simp
qed

section \<open>Sending without a transport\<close>

text \<open>
  C10. When there is no current socket, or the current socket is not open, \<open>sendMessage\<close>
  returns the session with the error set to \<open>Not connected to Syrinx\<close> and nothing else
  changed: the transcript, the waiting flag and the sockets are as before.
\<close>

theorem sendMessage_not_connected:
  assumes "\<not> ws_open s"
  shows "sendMessage now msg s = Inr (s\<lparr>error := Some ''Not connected to Syrinx''\<rparr>)"
  using assms by (auto simp: sendMessage_def ws_open_def split: option.splits)

theorem sendMessage_not_connected_witness:
  "\<not> ws_open initial
   \<and> sendMessage 1 ''Hi'' initial = Inr (initial\<lparr>error := Some ''Not connected to Syrinx''\<rparr>)
   \<and> \<not> ws_open (connect example_scenario initial)
   \<and> sendMessage 1 ''Hi'' (connect example_scenario initial)
       = Inr ((connect example_scenario initial)\<lparr>error := Some ''Not connected to Syrinx''\<rparr>)"
proof -
  have a: "\<not> ws_open initial"
    by (simp add: ws_open_def initial_def)
  have b: "\<not> ws_open (connect example_scenario initial)"
    by (simp add: ws_open_def connect_def initial_def Let_def)
  show ?thesis
    using sendMessage_not_connected [OF a, of 1 "''Hi''"]
      sendMessage_not_connected [OF b, of 1 "''Hi''"] a b
    by simp
qed

end
